theory Spec2Isabelle
  imports Complex_Main "HOL-Library.Sublist"
begin

section \<open>Python values used by fastapi\_app.py\<close>

text \<open>
  Python strings are lists of characters; the two accented letters of the messages are
  written by their code point (\<open>CHR 0xE9\<close> is e-acute). Byte strings are lists of
  characters as well. Floats are only passed around, never computed with.
\<close>

type_synonym bytes = "char list"

text \<open>
  An exception is either FastAPI's \<open>HTTPException(status_code, detail)\<close> or any other
  Python exception, kept by its \<open>str()\<close>.
\<close>

datatype exn = HTTPException nat string | PyError string

definition try_bind :: "exn + 'a \<Rightarrow> ('a \<Rightarrow> exn + 'b) \<Rightarrow> exn + 'b" where
  "try_bind m f = (case m of Inl e \<Rightarrow> Inl e | Inr v \<Rightarrow> f v)"

text \<open>Decimal \<open>str(n)\<close> of an integer, as an f-string prints it.\<close>

definition digit_char :: "nat \<Rightarrow> char" where
  "digit_char d = ''0123456789'' ! d"

fun str_nat :: "nat \<Rightarrow> string" where
  "str_nat n = (if n < 10 then [digit_char n] else str_nat (n div 10) @ [digit_char (n mod 10)])"

declare str_nat.simps [simp del]

definition str_int :: "int \<Rightarrow> string" where
  "str_int i = (if i < 0 then CHR ''-'' # str_nat (nat (- i)) else str_nat (nat i))"

text \<open>\<open>sep in s\<close> and \<open>s.split(sep)\<close> for a non-empty separator.\<close>

fun contains :: "string \<Rightarrow> string \<Rightarrow> bool" where
  "contains sep [] = (sep = [])"
| "contains sep (c # cs) = (prefix sep (c # cs) \<or> contains sep cs)"

fun split_acc :: "string \<Rightarrow> string \<Rightarrow> string \<Rightarrow> string list" where
  "split_acc sep acc [] = [rev acc]"
| "split_acc sep acc (c # cs) =
     (if prefix sep (c # cs) then rev acc # split_acc sep [] (drop (length sep - 1) cs)
      else split_acc sep (c # acc) cs)"

definition split :: "string \<Rightarrow> string \<Rightarrow> string list" where
  "split s sep = split_acc sep [] s"

definition none_has_no_attribute :: "string \<Rightarrow> string" where
  \<comment> \<open>\<open>str()\<close> of the AttributeError of an attribute access on \<open>None\<close>; \<open>CHR 0x27\<close> is the quote\<close>
  "none_has_no_attribute attr =
     [CHR 0x27] @ ''NoneType'' @ [CHR 0x27] @ '' object has no attribute '' @
     [CHR 0x27] @ attr @ [CHR 0x27]"

definition index1 :: "'a list \<Rightarrow> exn + 'a" where
  \<comment> \<open>\<open>xs[1]\<close>, an IndexError when there is no second element\<close>
  "index1 xs = (if 1 < length xs then Inr (xs ! 1) else Inl (PyError ''list index out of range''))"

section \<open>External collaborators\<close>

text \<open>
  OpenCV, PIL, base64 and Starlette are not part of the repository: the calls the source
  makes are fields of a record. A call that can raise returns a sum. \<open>http_str\<close> is
  \<open>str()\<close> of an \<open>HTTPException\<close>, which depends on the Starlette version.
\<close>

record 'img lib =
  shape :: "'img \<Rightarrow> nat list"
  cvtColor_RGB2BGR :: "'img \<Rightarrow> exn + 'img"
  resize_640_480 :: "'img \<Rightarrow> exn + 'img"
  imencode_jpg :: "'img \<Rightarrow> exn + bytes"
  b64encode :: "bytes \<Rightarrow> string"
  b64decode :: "string \<Rightarrow> exn + bytes"
  image_open :: "bytes \<Rightarrow> exn + 'img"
  http_str :: "nat \<Rightarrow> string \<Rightarrow> string"

definition str_exn :: "('img, 'x) lib_scheme \<Rightarrow> exn \<Rightarrow> string" where
  "str_exn L e = (case e of HTTPException c d \<Rightarrow> http_str L c d | PyError m \<Rightarrow> m)"

text \<open>
  The detector: one \<open>Boxes\<close> entry per object, a result per image with its optional boxes
  and its \<open>plot()\<close>, and the model with its class-name table and \<open>predict\<close>.
\<close>

record box =
  cls :: int
  conf :: real
  xywhn :: "real list list"
  xyxy :: "real list list"

record 'img yolo_result =
  boxes :: "box list option"
  plot :: "exn + 'img"

record 'img yolo =
  names :: "int \<rightharpoonup> string"
  predict :: "'img \<Rightarrow> real \<Rightarrow> exn + 'img yolo_result list"

section \<open>Detection request pipeline\<close>

record detection =
  class_name :: string
  class_id :: int
  confidence :: real
  bbox :: "real list"
  bbox_pixels :: "real list"

record DetectionResponse =
  success :: bool
  detections :: "detection list"
  count :: nat
  image_with_boxes :: "string option"
  message :: string

definition numel :: "real list list \<Rightarrow> nat" where
  "numel t = length (concat t)"

definition first_row :: "real list list \<Rightarrow> exn + real list" where
  \<comment> \<open>\<open>t[0].tolist() if t.numel() > 0 else []\<close>\<close>
  "first_row t =
     (if numel t > 0
      then (case t of [] \<Rightarrow> Inl (PyError ''index 0 is out of bounds'') | r # _ \<Rightarrow> Inr r)
      else Inr [])"

definition make_detection :: "(int \<rightharpoonup> string) \<Rightarrow> box \<Rightarrow> exn + detection" where
  "make_detection nm b =
     (case nm (cls b) of
        None \<Rightarrow> Inl (PyError (str_int (cls b)))
      | Some name \<Rightarrow>
          try_bind (first_row (xywhn b)) (\<lambda>bb.
          try_bind (first_row (xyxy b)) (\<lambda>bp.
          Inr \<lparr>class_name = name, class_id = cls b, confidence = conf b,
               bbox = bb, bbox_pixels = bp\<rparr>)))"

text \<open>The inner loop \<open>for box in boxes\<close>, appending to \<open>detections\<close>.\<close>

fun boxes_loop :: "(int \<rightharpoonup> string) \<Rightarrow> box list \<Rightarrow> detection list \<Rightarrow> exn + detection list" where
  "boxes_loop nm [] ds = Inr ds"
| "boxes_loop nm (b # bs) ds =
     try_bind (make_detection nm b) (\<lambda>d. boxes_loop nm bs (ds @ [d]))"

text \<open>The outer loop \<open>for r in results\<close>, carrying \<open>detections\<close> and \<open>result_image\<close>.\<close>

fun results_loop ::
  "(int \<rightharpoonup> string) \<Rightarrow> 'img yolo_result list \<Rightarrow> detection list \<times> 'img
     \<Rightarrow> exn + detection list \<times> 'img" where
  "results_loop nm [] acc = Inr acc"
| "results_loop nm (r # rs) (ds, img) =
     (case boxes r of
        None \<Rightarrow> results_loop nm rs (ds, img)
      | Some bs \<Rightarrow>
          try_bind (plot r) (\<lambda>img'.
          try_bind (boxes_loop nm bs ds) (\<lambda>ds'.
          results_loop nm rs (ds', img'))))"

definition aucun_objet :: string where
  "aucun_objet = ''Aucun objet d'' @ [CHR 0xE9] @ ''tect'' @ [CHR 0xE9]"

definition objets_detectes :: "nat \<Rightarrow> string" where
  "objets_detectes n = str_nat n @ '' objets d'' @ [CHR 0xE9] @ ''tect'' @ [CHR 0xE9] @ ''s''"

definition to_bgr :: "('img, 'x) lib_scheme \<Rightarrow> 'img \<Rightarrow> exn + 'img" where
  \<comment> \<open>the BGR conversion, for an array of three dimensions whose third is 3\<close>
  "to_bgr L img_np =
     (if length (shape L img_np) = 3 \<and> shape L img_np ! 2 = 3
      then cvtColor_RGB2BGR L img_np else Inr img_np)"

definition process_detection_body ::
  "('img, 'x) lib_scheme \<Rightarrow> 'img yolo option \<Rightarrow> 'img \<Rightarrow> real \<Rightarrow> exn + DetectionResponse" where
  "process_detection_body L model img_np confid =
     try_bind (to_bgr L img_np) (\<lambda>img.
     try_bind (case model of
                 None \<Rightarrow> Inl (PyError (none_has_no_attribute ''predict''))
               | Some m \<Rightarrow> try_bind (predict m img confid) (\<lambda>rs. Inr (m, rs))) (\<lambda>(m, results).
     try_bind (results_loop (names m) results ([], img)) (\<lambda>(ds, result_image).
     try_bind (imencode_jpg L result_image) (\<lambda>buffer.
     Inr \<lparr>success = True, detections = ds, count = length ds,
          image_with_boxes = Some (b64encode L buffer),
          message = (if ds \<noteq> [] then objets_detectes (length ds) else aucun_objet)\<rparr>))))"

definition process_detection ::
  "('img, 'x) lib_scheme \<Rightarrow> 'img yolo option \<Rightarrow> 'img \<Rightarrow> real \<Rightarrow> exn + DetectionResponse" where
  "process_detection L model img_np confid =
     (case process_detection_body L model img_np confid of
        Inl e \<Rightarrow> Inl (HTTPException 500 (''Erreur traitement: '' @ str_exn L e))
      | Inr resp \<Rightarrow> Inr resp)"

section \<open>Detection endpoints\<close>

record DetectionRequest =
  req_confidence :: real
  image :: "string option"

record UploadFile =
  content_type :: "string option"
  contents :: bytes

definition falsy :: "string option \<Rightarrow> bool" where
  \<comment> \<open>\<open>not request.image\<close>: \<open>None\<close> and the empty string\<close>
  "falsy s = (case s of None \<Rightarrow> True | Some t \<Rightarrow> t = [])"

definition detect_image_body ::
  "('img, 'x) lib_scheme \<Rightarrow> 'img yolo option \<Rightarrow> DetectionRequest \<Rightarrow> exn + DetectionResponse" where
  "detect_image_body L model request =
     (if model = None then Inl (HTTPException 500 ''Model not loaded'')
      else if falsy (image request) then Inl (HTTPException 400 ''No image provided'')
      else
        try_bind (if contains ''base64,'' (the (image request))
                  then index1 (split (the (image request)) ''base64,'')
                  else Inr (the (image request))) (\<lambda>image_data.
        try_bind (b64decode L image_data) (\<lambda>image_bytes.
        try_bind (image_open L image_bytes) (\<lambda>img_np.
        process_detection L model img_np (req_confidence request)))))"

definition detect_image ::
  "('img, 'x) lib_scheme \<Rightarrow> 'img yolo option \<Rightarrow> DetectionRequest \<Rightarrow> exn + DetectionResponse" where
  "detect_image L model request =
     (case detect_image_body L model request of
        Inl e \<Rightarrow> Inl (HTTPException 500 (str_exn L e))
      | Inr resp \<Rightarrow> Inr resp)"

definition detect_upload_body ::
  "('img, 'x) lib_scheme \<Rightarrow> 'img yolo option \<Rightarrow> UploadFile \<Rightarrow> real \<Rightarrow> exn + DetectionResponse" where
  "detect_upload_body L model file confid =
     (if model = None then Inl (HTTPException 500 ''Model not loaded'')
      else case content_type file of
        None \<Rightarrow> Inl (PyError (none_has_no_attribute ''startswith''))
      | Some ct \<Rightarrow>
          if \<not> prefix ''image/'' ct then Inl (HTTPException 400 ''File must be an image'')
          else
            try_bind (image_open L (contents file)) (\<lambda>img_np.
            process_detection L model img_np confid))"

definition detect_upload ::
  "('img, 'x) lib_scheme \<Rightarrow> 'img yolo option \<Rightarrow> UploadFile \<Rightarrow> real \<Rightarrow> exn + DetectionResponse" where
  "detect_upload L model file confid =
     (case detect_upload_body L model file confid of
        Inl e \<Rightarrow> Inl (HTTPException 500 (str_exn L e))
      | Inr resp \<Rightarrow> Inr resp)"

text \<open>
  The status the client sees: FastAPI answers an \<open>HTTPException\<close> with its status code,
  \<open>global_exception_handler\<close> answers any other exception with 500, a returned value
  is a 200.
\<close>

definition http_status :: "exn + 'a \<Rightarrow> nat" where
  "http_status r = (case r of Inl (HTTPException c d) \<Rightarrow> c | Inl (PyError m) \<Rightarrow> 500 | Inr v \<Rightarrow> 200)"

section \<open>Webcam streaming: shared state\<close>

text \<open>
  The module's globals \<open>camera_active\<close>, \<open>current_frame\<close> and \<open>camera_lock\<close>, together
  with the threads started by \<open>webcam_start\<close>, the generators created by
  \<open>webcam_stream\<close> and the lines printed. \<open>camera_lock\<close> is \<open>None\<close> when free and
  \<open>Some j\<close> while stream session \<open>j\<close> is suspended inside its \<open>with camera_lock\<close> block;
  the capture thread and \<open>webcam_frame\<close> take and release it within one step.

  \<open>generation\<close> counts the assignments to \<open>current_frame\<close>. The source keeps no such
  counter: it is recorded only to say which publication an emitted chunk carries, and
  no operation reads it to decide anything.
\<close>

datatype 'img cam_read = NoData | Frame 'img | ReadError string

datatype cap_state = Unopened | Opened | Released

datatype task_pc = Starting | Looping | Returned

record capture_task =
  task_pc :: task_pc
  cap :: cap_state
  task_conf :: real

datatype session_pc = AtWhile | AtYield | Finished

record session =
  session_pc :: session_pc
  emitted :: "(nat \<times> bytes) list"

datatype log_line = StreamStopped | WebcamError string

record 'img webcam =
  camera_active :: bool
  current_frame :: "'img option"
  camera_lock :: "nat option"
  tasks :: "capture_task list"
  sessions :: "session list"
  printed :: "log_line list"
  generation :: nat

definition init :: "'img webcam" where
  "init = \<lparr>camera_active = False, current_frame = None, camera_lock = None,
     tasks = [], sessions = [], printed = [], generation = 0\<rparr>"

section \<open>Capture loop: \<open>webcam_stream_task\<close>\<close>

text \<open>The loop \<open>for r in results: frame = r.plot()\<close>.\<close>

fun plot_loop :: "'img yolo_result list \<Rightarrow> 'img \<Rightarrow> exn + 'img" where
  "plot_loop [] frame = Inr frame"
| "plot_loop (r # rs) frame = try_bind (plot r) (\<lambda>frame'. plot_loop rs frame')"

definition annotate_frame ::
  "('img, 'x) lib_scheme \<Rightarrow> 'img yolo option \<Rightarrow> real \<Rightarrow> 'img \<Rightarrow> exn + 'img" where
  \<comment> \<open>resize, predict and plot of one iteration; any of them may raise\<close>
  "annotate_frame L model confid frame =
     try_bind (resize_640_480 L frame) (\<lambda>fr.
     try_bind (case model of
                 None \<Rightarrow> Inl (PyError (none_has_no_attribute ''predict''))
               | Some m \<Rightarrow> predict m fr confid) (\<lambda>results.
     plot_loop results fr))"

text \<open>
  Leaving the loop by its condition or by \<open>break\<close>: \<open>cap.release()\<close>, the "stream
  stopped" line, and the function returns. Nothing is assigned to \<open>camera_active\<close>.
\<close>

definition task_leave :: "nat \<Rightarrow> capture_task \<Rightarrow> 'img webcam \<Rightarrow> 'img webcam" where
  "task_leave i t s =
     s\<lparr>tasks := (tasks s)[i := t\<lparr>cap := Released, task_pc := Returned\<rparr>],
       printed := printed s @ [StreamStopped]\<rparr>"

text \<open>
  The \<open>except Exception\<close> clause: the error line and \<open>camera_active = False\<close>. The handle
  is not released and \<open>current_frame\<close> is not assigned.
\<close>

definition task_except :: "nat \<Rightarrow> capture_task \<Rightarrow> string \<Rightarrow> 'img webcam \<Rightarrow> 'img webcam" where
  "task_except i t e s =
     s\<lparr>camera_active := False,
       tasks := (tasks s)[i := t\<lparr>task_pc := Returned\<rparr>],
       printed := printed s @ [WebcamError e]\<rparr>"

text \<open>
  One turn of thread \<open>i\<close>: (on its first turn, opening the capture, then) the test of
  \<open>camera_active\<close>, the read, the detection and the assignment under the lock. The
  camera's answer to \<open>cap.read()\<close> is the argument \<open>rd\<close>. \<open>None\<close> means that the turn
  cannot run: no such thread, the thread has returned, or the lock is held by a session
  when the thread reaches \<open>with camera_lock\<close>.

  A turn is taken as a whole: nothing else happens between its test of \<open>camera_active\<close>
  and its assignment to \<open>current_frame\<close>, and \<open>cv2.waitKey(100)\<close> is taken to
  return.
\<close>

definition webcam_stream_task_turn ::
  "('img, 'x) lib_scheme \<Rightarrow> 'img yolo option \<Rightarrow> nat \<Rightarrow> 'img cam_read \<Rightarrow> 'img webcam
     \<Rightarrow> 'img webcam option" where
  "webcam_stream_task_turn L model i rd s =
     (if length (tasks s) \<le> i \<or> task_pc (tasks s ! i) = Returned then None
      else
        let t = (tasks s ! i)\<lparr>cap := Opened, task_pc := Looping\<rparr> in
        if \<not> camera_active s then Some (task_leave i t s)
        else case rd of
          NoData \<Rightarrow> Some (task_leave i t s)
        | ReadError e \<Rightarrow> Some (task_except i t e s)
        | Frame frame \<Rightarrow>
            (case annotate_frame L model (task_conf t) frame of
               Inl e \<Rightarrow> Some (task_except i t (str_exn L e) s)
             | Inr frame' \<Rightarrow>
                 if camera_lock s \<noteq> None then None
                 else Some (s\<lparr>current_frame := Some frame',
                              generation := generation s + 1,
                              tasks := (tasks s)[i := t]\<rparr>)))"

section \<open>Lifecycle endpoints\<close>

record control_response =
  ctl_status :: string
  ctl_message :: string
  ctl_confidence :: "real option"

definition webcam_start ::
  "'img yolo option \<Rightarrow> real \<Rightarrow> 'img webcam \<Rightarrow> (exn + control_response) \<times> 'img webcam" where
  "webcam_start model confid s =
     (if camera_active s
      then (Inr \<lparr>ctl_status = ''already_active'',
                 ctl_message = ''Webcam d'' @ [CHR 0xE9] @ ''j'' @ [CHR 0xE0] @ '' active'',
                 ctl_confidence = None\<rparr>, s)
      else if model = None then (Inl (HTTPException 500 ''Model not loaded''), s)
      else (Inr \<lparr>ctl_status = ''started'',
                 ctl_message = ''Webcam d'' @ [CHR 0xE9] @ ''marr'' @ [CHR 0xE9] @ ''e'',
                 ctl_confidence = Some confid\<rparr>,
            s\<lparr>camera_active := True,
              tasks := tasks s @ [\<lparr>task_pc = Starting, cap = Unopened, task_conf = confid\<rparr>]\<rparr>))"

definition webcam_stop :: "'img webcam \<Rightarrow> control_response \<times> 'img webcam" where
  "webcam_stop s =
     (\<lparr>ctl_status = ''stopped'',
       ctl_message = ''Webcam arr'' @ [CHR 0xEA] @ ''t'' @ [CHR 0xE9] @ ''e'',
       ctl_confidence = None\<rparr>,
      s\<lparr>camera_active := False\<rparr>)"

record WebcamStatus =
  active :: bool
  status_message :: string

definition webcam_status :: "'img webcam \<Rightarrow> WebcamStatus" where
  "webcam_status s =
     \<lparr>active = camera_active s,
      status_message = (if camera_active s then ''Webcam active'' else ''Webcam inactive'')\<rparr>"

section \<open>Readers: \<open>webcam_frame\<close> and \<open>generate_frames\<close>\<close>

record frame_response =
  frame_success :: bool
  frame_image :: string
  frame_timestamp :: real

text \<open>
  \<open>webcam_frame\<close>, with the event loop's clock as \<open>now\<close>. The test of \<open>camera_active\<close>
  comes before the lock; \<open>None\<close> means that the handler waits at \<open>with camera_lock\<close>.
\<close>

definition webcam_frame ::
  "('img, 'x) lib_scheme \<Rightarrow> real \<Rightarrow> 'img webcam \<Rightarrow> (exn + frame_response) option" where
  "webcam_frame L now s =
     (if \<not> camera_active s then Some (Inl (HTTPException 400 ''Webcam not active''))
      else if camera_lock s \<noteq> None then None
      else case current_frame s of
        None \<Rightarrow> Some (Inl (HTTPException 404 ''No frame available''))
      | Some frame \<Rightarrow>
          Some (try_bind (imencode_jpg L frame) (\<lambda>buffer.
                Inr \<lparr>frame_success = True, frame_image = b64encode L buffer,
                     frame_timestamp = now\<rparr>)))"

definition mjpeg_chunk :: "bytes \<Rightarrow> bytes" where
  "mjpeg_chunk frame_data =
     ''--frame'' @ [CHR 0x0D, CHR 0x0A] @ ''Content-Type: image/jpeg''
       @ [CHR 0x0D, CHR 0x0A, CHR 0x0D, CHR 0x0A] @ frame_data @ [CHR 0x0D, CHR 0x0A]"

definition webcam_stream :: "'img webcam \<Rightarrow> 'img webcam" where
  \<comment> \<open>a new generator, not yet run\<close>
  "webcam_stream s = s\<lparr>sessions := sessions s @ [\<lparr>session_pc = AtWhile, emitted = []\<rparr>]\<rparr>"

text \<open>
  One run of generator \<open>j\<close> up to its next suspension. From the head of the loop: the
  test of \<open>camera_active\<close>, then the lock, then either the sleep (no frame) or the
  encoding and the \<open>yield\<close>, at which the generator is suspended inside the \<open>with\<close> block,
  the lock still held. Resumed from the \<open>yield\<close>, it leaves the block, which releases the
  lock, and sleeps. An exception of the encoder leaves the block and ends the generator.
  \<open>None\<close> means that the run cannot proceed: no such generator, the generator has ended,
  or the lock is held.
\<close>

definition generate_frames_run ::
  "('img, 'x) lib_scheme \<Rightarrow> nat \<Rightarrow> 'img webcam \<Rightarrow> 'img webcam option" where
  "generate_frames_run L j s =
     (if length (sessions s) \<le> j then None
      else
        let g = sessions s ! j in
        case session_pc g of
          Finished \<Rightarrow> None
        | AtYield \<Rightarrow>
            Some (s\<lparr>camera_lock := None,
                    sessions := (sessions s)[j := g\<lparr>session_pc := AtWhile\<rparr>]\<rparr>)
        | AtWhile \<Rightarrow>
            if \<not> camera_active s
            then Some (s\<lparr>sessions := (sessions s)[j := g\<lparr>session_pc := Finished\<rparr>]\<rparr>)
            else if camera_lock s \<noteq> None then None
            else case current_frame s of
              None \<Rightarrow> Some s
            | Some frame \<Rightarrow>
                (case imencode_jpg L frame of
                   Inl e \<Rightarrow>
                     Some (s\<lparr>sessions := (sessions s)[j := g\<lparr>session_pc := Finished\<rparr>]\<rparr>)
                 | Inr buffer \<Rightarrow>
                     Some (s\<lparr>camera_lock := Some j,
                             sessions := (sessions s)[j := g\<lparr>session_pc := AtYield,
                               emitted := emitted g @ [(generation s, mjpeg_chunk buffer)]\<rparr>]\<rparr>)))"

section \<open>Interleavings\<close>

text \<open>
  What can happen to the shared state: a request to one of the endpoints, a turn of a
  capture thread, a run of a generator. A step that cannot run leaves the state as it is:
  where the thread or handler itself would wait at the lock and go on once it is free,
  the run of events goes on without that step.
\<close>

datatype 'img event =
    Start real
  | Stop
  | Capture nat "'img cam_read"
  | Stream
  | Resume nat

definition step ::
  "('img, 'x) lib_scheme \<Rightarrow> 'img yolo option \<Rightarrow> 'img event \<Rightarrow> 'img webcam \<Rightarrow> 'img webcam option" where
  "step L model ev s =
     (case ev of
        Start confid \<Rightarrow> Some (snd (webcam_start model confid s))
      | Stop \<Rightarrow> Some (snd (webcam_stop s))
      | Capture i rd \<Rightarrow> webcam_stream_task_turn L model i rd s
      | Stream \<Rightarrow> Some (webcam_stream s)
      | Resume j \<Rightarrow> generate_frames_run L j s)"

definition exec ::
  "('img, 'x) lib_scheme \<Rightarrow> 'img yolo option \<Rightarrow> 'img event \<Rightarrow> 'img webcam \<Rightarrow> 'img webcam" where
  "exec L model ev s = (case step L model ev s of None \<Rightarrow> s | Some s' \<Rightarrow> s')"

fun run ::
  "('img, 'x) lib_scheme \<Rightarrow> 'img yolo option \<Rightarrow> 'img event list \<Rightarrow> 'img webcam \<Rightarrow> 'img webcam" where
  "run L model [] s = s"
| "run L model (ev # evs) s = run L model evs (exec L model ev s)"

definition live_tasks :: "'img webcam \<Rightarrow> nat" where
  \<comment> \<open>the capture threads that have not returned\<close>
  "live_tasks s = length (filter (\<lambda>t. task_pc t \<noteq> Returned) (tasks s))"


definition gens_ok :: "'img webcam \<Rightarrow> bool" where
  "gens_ok s = (\<forall>g\<in>set (sessions s). sorted (map fst (emitted g)) \<and>
                  (\<forall>n\<in>set (map fst (emitted g)). n \<le> generation s))"

section \<open>Fixtures for concrete runs\<close>

text \<open>
  A concrete library and detector over images named by numbers: conversions are the
  identity, the encoder raises on image 0 and writes the number of any other image, \<open>str()\<close> of an \<open>HTTPException\<close> is
  Starlette's \<open>"{status_code}: {detail}"\<close>. The detector finds one object of class 0 at a
  threshold of at most 0.5 and none above.
\<close>

definition test_lib :: "nat lib" where
  "test_lib = \<lparr>shape = (\<lambda>i. [480, 640, 3]), cvtColor_RGB2BGR = Inr, resize_640_480 = Inr,
     imencode_jpg = (\<lambda>i. if i = 0 then Inl (PyError ''empty image'') else Inr (str_nat i)),
     b64encode = (\<lambda>b. b), b64decode = Inr,
     image_open = (\<lambda>b. Inr (length b)),
     http_str = (\<lambda>c d. str_nat c @ '': '' @ d)\<rparr>"

definition test_box :: box where
  "test_box = \<lparr>cls = 0, conf = 0.5, xywhn = [[0.5, 0.5, 0.2, 0.2]], xyxy = [[10, 10, 20, 20]]\<rparr>"

definition test_model :: "nat yolo" where
  "test_model = \<lparr>names = [0 \<mapsto> ''plastic'', 1 \<mapsto> ''glass''],
     predict = (\<lambda>img c. Inr [\<lparr>boxes = Some (if c \<le> 0.5 then [test_box] else []),
                                plot = Inr (img + 1)\<rparr>])\<rparr>"

section \<open>Properties of the detection pipeline\<close>

lemma try_bind_Inr: "try_bind m f = Inr r \<Longrightarrow> \<exists>v. m = Inr v \<and> f v = Inr r"
  by (cases m) (simp_all add: try_bind_def)

lemma results_loop_no_boxes:
  "\<forall>r\<in>set rs. boxes r = None \<or> boxes r = Some [] \<Longrightarrow>
   \<forall>r\<in>set rs. boxes r \<noteq> None \<longrightarrow> (\<exists>p. plot r = Inr p) \<Longrightarrow>
   \<exists>img'. results_loop nm rs (ds, img) = Inr (ds, img')"
proof (induction rs arbitrary: img)
  case Nil
  then show ?case by simp
next
  case (Cons r rs)
  show ?case
  proof (cases "boxes r")
    case None
    with Cons show ?thesis by simp
  next
    case (Some bs)
    with Cons.prems have bs: "bs = []" by simp
    from Cons.prems Some obtain p where p: "plot r = Inr p" by auto
    from Cons.IH [of p] Cons.prems obtain img' where
      "results_loop nm rs (ds, p) = Inr (ds, img')" by auto
    with Some bs p show ?thesis by (simp add: try_bind_def)
  qed
qed

lemma process_detection_body_shape:
  fixes model :: "'img yolo option"
  assumes "process_detection_body L model img_np c = Inr resp"
  shows "\<exists>ds b. resp = \<lparr>success = True, detections = ds, count = length ds,
          image_with_boxes = Some b,
          message = (if ds \<noteq> [] then objets_detectes (length ds) else aucun_objet)\<rparr>"
proof -
  from assms obtain img where
    s1: "try_bind (case model of
                 None \<Rightarrow> Inl (PyError (none_has_no_attribute ''predict''))
               | Some m \<Rightarrow> try_bind (predict m img c) (\<lambda>rs. Inr (m, rs))) (\<lambda>(m, results).
     try_bind (results_loop (names m) results ([], img)) (\<lambda>(ds, result_image).
     try_bind (imencode_jpg L result_image) (\<lambda>buffer.
     Inr \<lparr>success = True, detections = ds, count = length ds,
          image_with_boxes = Some (b64encode L buffer),
          message = (if ds \<noteq> [] then objets_detectes (length ds) else aucun_objet)\<rparr>))) = Inr resp"
    unfolding process_detection_body_def by (blast dest: try_bind_Inr)
  from try_bind_Inr [OF s1] obtain m :: "'img yolo" and results where
    s2: "try_bind (results_loop (names m) results ([], img)) (\<lambda>(ds, result_image).
     try_bind (imencode_jpg L result_image) (\<lambda>buffer.
     Inr \<lparr>success = True, detections = ds, count = length ds,
          image_with_boxes = Some (b64encode L buffer),
          message = (if ds \<noteq> [] then objets_detectes (length ds) else aucun_objet)\<rparr>)) = Inr resp"
    by auto
  from try_bind_Inr [OF s2] obtain ds result_image where
    s3: "try_bind (imencode_jpg L result_image) (\<lambda>buffer.
     Inr \<lparr>success = True, detections = ds, count = length ds,
          image_with_boxes = Some (b64encode L buffer),
          message = (if ds \<noteq> [] then objets_detectes (length ds) else aucun_objet)\<rparr>) = Inr resp"
    by auto
  from try_bind_Inr [OF s3] show ?thesis by auto
qed

lemma test_run_one_object:
  "process_detection test_lib (Some test_model) 7 0.5 =
     Inr \<lparr>success = True,
          detections = [\<lparr>class_name = ''plastic'', class_id = 0, confidence = 0.5,
                         bbox = [0.5, 0.5, 0.2, 0.2], bbox_pixels = [10, 10, 20, 20]\<rparr>],
          count = 1, image_with_boxes = Some ''8'',
          message = ''1 objets d'' @ [CHR 0xE9] @ ''tect'' @ [CHR 0xE9] @ ''s''\<rparr>"
  by (simp add: process_detection_def process_detection_body_def to_bgr_def test_lib_def
      test_model_def test_box_def try_bind_def make_detection_def first_row_def numel_def
      objets_detectes_def str_nat.simps digit_char_def)

text \<open>
  C8. When the image converts, the detector returns results none of which carries a box,
  the plot of each result that has a (then empty) box list returns, and the JPEG encoder
  returns a buffer for the image the loop leaves in \<open>result_image\<close>, the response has an
  empty detection list, count 0, success true and the message "Aucun objet detecte" (with
  its accents). Nothing is asked of the encoder on any other image, nor of the plot of a
  result without boxes, which is never called.
\<close>

theorem process_detection_no_objects:
  assumes bgr: "to_bgr L img_np = Inr img"
    and pred: "predict m img c = Inr rs"
    and zero: "\<forall>r\<in>set rs. boxes r = None \<or> boxes r = Some []"
    and plots: "\<forall>r\<in>set rs. boxes r \<noteq> None \<longrightarrow> (\<exists>p. plot r = Inr p)"
    and enc: "\<forall>result_image. results_loop (names m) rs ([], img) = Inr ([], result_image) \<longrightarrow>
                (\<exists>b. imencode_jpg L result_image = Inr b)"
  shows "\<exists>result_image b.
     results_loop (names m) rs ([], img) = Inr ([], result_image) \<and>
     imencode_jpg L result_image = Inr b \<and>
     process_detection L (Some m) img_np c =
       Inr \<lparr>success = True, detections = [], count = 0,
            image_with_boxes = Some (b64encode L b),
            message = ''Aucun objet d'' @ [CHR 0xE9] @ ''tect'' @ [CHR 0xE9]\<rparr>"
proof -
  from results_loop_no_boxes [OF zero plots] obtain img' where
    rl: "results_loop (names m) rs ([], img) = Inr ([], img')" by blast
  from enc rl obtain b where b: "imencode_jpg L img' = Inr b" by blast
  have "process_detection L (Some m) img_np c =
       Inr \<lparr>success = True, detections = [], count = 0,
            image_with_boxes = Some (b64encode L b),
            message = ''Aucun objet d'' @ [CHR 0xE9] @ ''tect'' @ [CHR 0xE9]\<rparr>"
    unfolding process_detection_def process_detection_body_def
    by (simp add: try_bind_def bgr pred rl b aucun_objet_def)
  with rl b show ?thesis by blast
qed

theorem process_detection_no_objects_witness:
  "\<not> (\<forall>i. \<exists>b. imencode_jpg test_lib i = Inr b) \<and>
   process_detection test_lib (Some test_model) 7 0.9 =
     Inr \<lparr>success = True, detections = [], count = 0, image_with_boxes = Some ''8'',
          message = ''Aucun objet d'' @ [CHR 0xE9] @ ''tect'' @ [CHR 0xE9]\<rparr>"
proof -
  have bgr: "to_bgr test_lib 7 = Inr 7"
    by (simp add: to_bgr_def test_lib_def)
  have pred: "predict test_model 7 0.9 = Inr [\<lparr>boxes = Some [], plot = Inr 8\<rparr>]"
    by (simp add: test_model_def)
  have zero: "\<forall>r\<in>set [\<lparr>boxes = Some [], plot = Inr (8::nat)\<rparr>]. boxes r = None \<or> boxes r = Some []"
    by simp
  have plots: "\<forall>r\<in>set [\<lparr>boxes = Some [], plot = Inr (8::nat)\<rparr>].
      boxes r \<noteq> None \<longrightarrow> (\<exists>p. plot r = Inr p)"
    by simp
  have rl: "results_loop (names test_model) [\<lparr>boxes = Some [], plot = Inr (8::nat)\<rparr>] ([], 7) =
      Inr ([], 8)"
    by (simp add: try_bind_def)
  have enc: "\<forall>result_image.
      results_loop (names test_model) [\<lparr>boxes = Some [], plot = Inr (8::nat)\<rparr>] ([], 7) =
        Inr ([], result_image) \<longrightarrow> (\<exists>b. imencode_jpg test_lib result_image = Inr b)"
    unfolding rl by (simp add: test_lib_def)
  have partial: "\<not> (\<forall>i. \<exists>b. imencode_jpg test_lib i = Inr b)"
  proof
    assume "\<forall>i. \<exists>b. imencode_jpg test_lib i = Inr b"
    then have "\<exists>b. imencode_jpg test_lib 0 = Inr b" by blast
    then show False by (simp add: test_lib_def)
  qed
  from process_detection_no_objects [OF bgr pred zero plots enc] obtain result_image b where
    r: "results_loop (names test_model) [\<lparr>boxes = Some [], plot = Inr (8::nat)\<rparr>] ([], 7) =
          Inr ([], result_image)"
    and e: "imencode_jpg test_lib result_image = Inr b"
    and p: "process_detection test_lib (Some test_model) 7 0.9 =
       Inr \<lparr>success = True, detections = [], count = 0,
            image_with_boxes = Some (b64encode test_lib b),
            message = ''Aucun objet d'' @ [CHR 0xE9] @ ''tect'' @ [CHR 0xE9]\<rparr>"
    by blast
  from r rl have "result_image = 8" by simp
  with e have "b = ''8''"
    by (simp add: test_lib_def str_nat.simps digit_char_def)
  with p have "process_detection test_lib (Some test_model) 7 0.9 =
       Inr \<lparr>success = True, detections = [], count = 0, image_with_boxes = Some ''8'',
            message = ''Aucun objet d'' @ [CHR 0xE9] @ ''tect'' @ [CHR 0xE9]\<rparr>"
    by (simp add: test_lib_def)
  with partial show ?thesis by blast
qed

text \<open>
  C9. Whenever the detection pipeline returns a response, its success flag is true, its
  count is the length of its detection list, and its message is "<count> objets detectes"
  for a positive count and "Aucun objet detecte" for a count of 0.
\<close>

theorem process_detection_response:
  fixes model :: "'img yolo option"
  assumes "process_detection L model img_np c = Inr resp"
  shows "success resp \<and> count resp = length (detections resp) \<and>
     message resp = (if count resp > 0
        then str_nat (count resp) @ '' objets d'' @ [CHR 0xE9] @ ''tect'' @ [CHR 0xE9] @ ''s''
        else ''Aucun objet d'' @ [CHR 0xE9] @ ''tect'' @ [CHR 0xE9])"
proof -
  from assms have "process_detection_body L model img_np c = Inr resp"
    by (simp add: process_detection_def split: sum.splits)
  from process_detection_body_shape [OF this] obtain ds b where
    "resp = \<lparr>success = True, detections = ds, count = length ds,
          image_with_boxes = Some b,
          message = (if ds \<noteq> [] then objets_detectes (length ds) else aucun_objet)\<rparr>" by blast
  then show ?thesis by (simp add: objets_detectes_def aucun_objet_def)
qed

theorem process_detection_response_witness:
  "\<exists>resp. process_detection test_lib (Some test_model) 7 0.5 = Inr resp \<and>
     success resp \<and> count resp = 1 \<and> length (detections resp) = 1 \<and>
     message resp = ''1 objets d'' @ [CHR 0xE9] @ ''tect'' @ [CHR 0xE9] @ ''s''"
  using process_detection_response [OF test_run_one_object] test_run_one_object
  by simp

text \<open>
  C10. A detect-inline request without an image (\<open>None\<close> or the empty string) and a
  detect-upload request whose content type does not start with \<open>image/\<close> are answered
  with status 500, never 400: with a model loaded, the 400 \<open>HTTPException\<close> raised in the
  \<open>try\<close> block is caught by the handler's own \<open>except Exception\<close> and raised again as a
  500 whose detail is \<open>str()\<close> of the 400 exception.
\<close>

theorem detect_rejection_is_500:
  fixes model :: "'img yolo option"
  shows "(falsy (image request) \<longrightarrow>
       http_status (detect_image L model request) = 500 \<and>
       (model \<noteq> None \<longrightarrow> detect_image L model request =
          Inl (HTTPException 500 (str_exn L (HTTPException 400 ''No image provided''))))) \<and>
     ((\<forall>ct. content_type file = Some ct \<longrightarrow> \<not> prefix ''image/'' ct) \<longrightarrow>
       http_status (detect_upload L model file c) = 500 \<and>
       (model \<noteq> None \<and> content_type file \<noteq> None \<longrightarrow> detect_upload L model file c =
          Inl (HTTPException 500 (str_exn L (HTTPException 400 ''File must be an image'')))))"
proof -
  have img: "http_status (detect_image L model request) = 500 \<and>
       (model \<noteq> None \<longrightarrow> detect_image L model request =
          Inl (HTTPException 500 (str_exn L (HTTPException 400 ''No image provided''))))"
    if "falsy (image request)"
    using that by (simp add: detect_image_def detect_image_body_def http_status_def)
  have upl: "http_status (detect_upload L model file c) = 500 \<and>
       (model \<noteq> None \<and> content_type file \<noteq> None \<longrightarrow> detect_upload L model file c =
          Inl (HTTPException 500 (str_exn L (HTTPException 400 ''File must be an image''))))"
    if "\<forall>ct. content_type file = Some ct \<longrightarrow> \<not> prefix ''image/'' ct"
    using that
    by (cases "content_type file")
       (simp_all add: detect_upload_def detect_upload_body_def http_status_def)
  from img upl show ?thesis by blast
qed

theorem detect_rejection_is_500_witness:
  "detect_image test_lib (Some test_model) \<lparr>req_confidence = 0.5, image = None\<rparr> =
     Inl (HTTPException 500 ''400: No image provided'') \<and>
   detect_upload test_lib (Some test_model)
       \<lparr>content_type = Some ''text/plain'', contents = []\<rparr> 0.5 =
     Inl (HTTPException 500 ''400: File must be an image'')"
  using detect_rejection_is_500 [of "\<lparr>req_confidence = 0.5, image = None\<rparr>" test_lib
      "Some test_model" "\<lparr>content_type = Some ''text/plain'', contents = []\<rparr>" "0.5"]
  by (simp add: falsy_def str_exn_def test_lib_def str_nat.simps digit_char_def)

section \<open>Properties of the webcam pipeline\<close>

text \<open>
  C1. The claim: when a camera read returns no data while the pipeline runs, the capture
  loop exits and the pipeline becomes stopped without a call to stop, so that a later
  stream request ends at once. Run on a start, one good frame and one failed read: the
  loop has returned, but \<open>camera_active\<close> is still true, the status endpoint reports the
  webcam active, and a stream opened afterwards is still emitting after five runs.
\<close>

theorem read_failure_leaves_camera_active:
  "camera_active (run test_lib (Some test_model)
      [Start 0.5, Capture 0 (Frame 7), Capture 0 NoData] init) \<and>
   live_tasks (run test_lib (Some test_model)
      [Start 0.5, Capture 0 (Frame 7), Capture 0 NoData] init) = 0 \<and>
   active (webcam_status (run test_lib (Some test_model)
      [Start 0.5, Capture 0 (Frame 7), Capture 0 NoData] init)) \<and>
   session_pc (sessions (run test_lib (Some test_model)
      [Start 0.5, Capture 0 (Frame 7), Capture 0 NoData,
       Stream, Resume 0, Resume 0, Resume 0, Resume 0, Resume 0] init) ! 0) = AtYield \<and>
   length (emitted (sessions (run test_lib (Some test_model)
      [Start 0.5, Capture 0 (Frame 7), Capture 0 NoData,
       Stream, Resume 0, Resume 0, Resume 0, Resume 0, Resume 0] init) ! 0)) = 3"
  by code_simp

text \<open>
  C2, as stated, fails: after a start and a stop the first loop is still alive, a second
  start is answered "started", and then two capture loops run side by side.
\<close>

theorem start_after_stop_second_loop:
  "live_tasks (run test_lib (Some test_model) [Start 0.5, Capture 0 (Frame 1), Stop] init) = 1 \<and>
   fst (webcam_start (Some test_model) 0.5
      (run test_lib (Some test_model) [Start 0.5, Capture 0 (Frame 1), Stop] init)) =
     Inr \<lparr>ctl_status = ''started'',
          ctl_message = ''Webcam d'' @ [CHR 0xE9] @ ''marr'' @ [CHR 0xE9] @ ''e'',
          ctl_confidence = Some 0.5\<rparr> \<and>
   live_tasks (run test_lib (Some test_model)
      [Start 0.5, Capture 0 (Frame 1), Stop, Start 0.5,
       Capture 0 (Frame 3), Capture 1 (Frame 5)] init) = 2"
  by code_simp

text \<open>
  C2, amended. A call to start while \<open>camera_active\<close> is true returns the already-active
  status, starts no thread and leaves the state as it is; so two calls in a row from an
  inactive state with a model loaded add exactly one capture loop.
\<close>

theorem webcam_start_while_active:
  "(camera_active s \<longrightarrow>
      webcam_start model c s =
        (Inr \<lparr>ctl_status = ''already_active'',
              ctl_message = ''Webcam d'' @ [CHR 0xE9] @ ''j'' @ [CHR 0xE0] @ '' active'',
              ctl_confidence = None\<rparr>, s)) \<and>
   (\<not> camera_active s \<and> model \<noteq> None \<longrightarrow>
      webcam_start model c' (snd (webcam_start model c s)) =
        (Inr \<lparr>ctl_status = ''already_active'',
              ctl_message = ''Webcam d'' @ [CHR 0xE9] @ ''j'' @ [CHR 0xE0] @ '' active'',
              ctl_confidence = None\<rparr>, snd (webcam_start model c s)) \<and>
      live_tasks (snd (webcam_start model c' (snd (webcam_start model c s)))) = live_tasks s + 1)"
  by (simp add: webcam_start_def live_tasks_def)

theorem webcam_start_while_active_witness:
  "live_tasks (run test_lib (Some test_model) [Start 0.5, Start 0.9] init) = 1 \<and>
   fst (webcam_start (Some test_model) 0.9 (run test_lib (Some test_model) [Start 0.5] init)) =
     Inr \<lparr>ctl_status = ''already_active'',
          ctl_message = ''Webcam d'' @ [CHR 0xE9] @ ''j'' @ [CHR 0xE0] @ '' active'',
          ctl_confidence = None\<rparr>"
  using webcam_start_while_active [of "init :: nat webcam" "Some test_model" "0.5" "0.9"]
    webcam_start_while_active [of "snd (webcam_start (Some test_model) 0.5 (init :: nat webcam))"
      "Some test_model" "0.9" "0.9"]
  by (simp add: init_def exec_def step_def live_tasks_def webcam_start_def)






text \<open>
  C4, as stated, fails: with one frame published, a session emits it, sleeps and emits
  it again, so two consecutive chunks carry generation 1.
\<close>

theorem session_resends_same_generation:
  "map fst (emitted (sessions (run test_lib (Some test_model)
     [Start 0.5, Capture 0 (Frame 7), Stream, Resume 0, Resume 0, Resume 0] init) ! 0)) = [1, 1]"
  by code_simp

lemma gens_ok_update:
  assumes ok: "gens_ok s" and gen: "generation s \<le> generation s'"
    and upd: "sessions s' = (sessions s)[j := g]"
    and srt: "sorted (map fst (emitted g))"
    and bnd: "\<forall>m\<in>set (map fst (emitted g)). m \<le> generation s'"
  shows "gens_ok s'"
  unfolding gens_ok_def
proof
  fix h assume "h \<in> set (sessions s')"
  then have "h \<in> insert g (set (sessions s))"
    using set_update_subset_insert [of "sessions s" j g] upd by auto
  then show "sorted (map fst (emitted h)) \<and> (\<forall>m\<in>set (map fst (emitted h)). m \<le> generation s')"
    using ok gen srt bnd by (fastforce simp: gens_ok_def)
qed

lemma gens_okD:
  "gens_ok s \<Longrightarrow> j < length (sessions s) \<Longrightarrow>
   sorted (map fst (emitted (sessions s ! j))) \<and>
   (\<forall>m\<in>set (map fst (emitted (sessions s ! j))). m \<le> generation s)"
  using nth_mem [of j "sessions s"] by (fastforce simp: gens_ok_def)

lemma gens_ok_resume:
  assumes ok: "gens_ok s" and r: "generate_frames_run L j s = Some s'"
  shows "gens_ok s'"
proof -
  from r have j: "j < length (sessions s)"
    by (simp add: generate_frames_run_def split: if_splits)
  let ?g = "sessions s ! j"
  note d = gens_okD [OF ok j]
  from r j have "s' = s \<or>
    (generation s' = generation s \<and>
      ((\<exists>pc. sessions s' = (sessions s)[j := ?g\<lparr>session_pc := pc\<rparr>]) \<or>
       (\<exists>c. sessions s' = (sessions s)[j := ?g\<lparr>session_pc := AtYield,
               emitted := emitted ?g @ [(generation s, c)]\<rparr>])))"
    by (auto simp: generate_frames_run_def Let_def
        split: if_splits option.splits sum.splits session_pc.splits)
  then consider (same) "s' = s"
    | (pc) pc where "generation s' = generation s"
        "sessions s' = (sessions s)[j := ?g\<lparr>session_pc := pc\<rparr>]"
    | (emit) c where "generation s' = generation s"
        "sessions s' = (sessions s)[j := ?g\<lparr>session_pc := AtYield,
               emitted := emitted ?g @ [(generation s, c)]\<rparr>]"
    by blast
  then show ?thesis
  proof cases
    case same
    with ok show ?thesis by simp
  next
    case pc
    show ?thesis
      by (rule gens_ok_update [OF ok _ pc(2)]) (use d pc(1) in simp_all)
  next
    case emit
    show ?thesis
      by (rule gens_ok_update [OF ok _ emit(2)]) (use d emit(1) in \<open>auto simp: sorted_append\<close>)
  qed
qed

lemma gens_ok_capture:
  assumes ok: "gens_ok s" and r: "webcam_stream_task_turn L model i rd s = Some s'"
  shows "gens_ok s'"
proof -
  have "sessions s' = sessions s \<and> generation s \<le> generation s'"
    using r
    by (auto simp: webcam_stream_task_turn_def Let_def task_leave_def task_except_def
        split: if_splits cam_read.splits sum.splits)
  with ok show ?thesis by (fastforce simp: gens_ok_def)
qed

lemma gens_ok_exec: "gens_ok s \<Longrightarrow> gens_ok (exec L model ev s)"
proof (cases ev)
  case (Start c)
  assume "gens_ok s"
  then show ?thesis using Start
    by (simp add: exec_def step_def webcam_start_def gens_ok_def)
next
  case Stop
  assume "gens_ok s"
  then show ?thesis using Stop
    by (simp add: exec_def step_def webcam_stop_def gens_ok_def)
next
  case (Capture i rd)
  assume "gens_ok s"
  then show ?thesis using Capture
    by (auto simp: exec_def step_def split: option.splits dest: gens_ok_capture)
next
  case Stream
  assume "gens_ok s"
  then show ?thesis using Stream
    by (simp add: exec_def step_def webcam_stream_def gens_ok_def)
next
  case (Resume j)
  assume "gens_ok s"
  then show ?thesis using Resume
    by (auto simp: exec_def step_def split: option.splits dest: gens_ok_resume)
qed

lemma gens_ok_run: "gens_ok s \<Longrightarrow> gens_ok (run L model evs s)"
  by (induction evs arbitrary: s) (simp_all add: gens_ok_exec)

lemma gens_ok_init: "gens_ok init"
  by (simp add: gens_ok_def init_def)

text \<open>
  C4, amended. In every state reached from the initial one, the generations of the chunks
  a session has emitted are in non-decreasing order (not strictly increasing). A session at
  the head of its loop, with the pipeline active, the lock free and a frame in the slot,
  emits that frame with the current generation whatever it emitted before; the poll sleep
  follows when it is resumed.
\<close>

theorem generate_frames_emissions:
  "(\<forall>g\<in>set (sessions (run L model evs init)). sorted (map fst (emitted g))) \<and>
   (j < length (sessions s) \<and> session_pc (sessions s ! j) = AtWhile \<and> camera_active s \<and>
    camera_lock s = None \<and> current_frame s = Some frame \<and> imencode_jpg L frame = Inr buffer \<longrightarrow>
      generate_frames_run L j s =
        Some (s\<lparr>camera_lock := Some j,
                sessions := (sessions s)[j := (sessions s ! j)\<lparr>session_pc := AtYield,
                   emitted := emitted (sessions s ! j) @ [(generation s, mjpeg_chunk buffer)]\<rparr>]\<rparr>))"
proof -
  have "gens_ok (run L model evs init)"
    by (rule gens_ok_run [OF gens_ok_init])
  then have a: "\<forall>g\<in>set (sessions (run L model evs init)). sorted (map fst (emitted g))"
    by (simp add: gens_ok_def)
  show ?thesis using a
    by (simp add: generate_frames_run_def Let_def)
qed

theorem generate_frames_emissions_witness:
  "sorted (map fst (emitted (sessions (run test_lib (Some test_model)
     [Start 0.5, Capture 0 (Frame 7), Stream, Resume 0, Resume 0, Resume 0] init) ! 0))) \<and>
   map fst (emitted (sessions (the (generate_frames_run test_lib 0 (run test_lib (Some test_model)
     [Start 0.5, Capture 0 (Frame 7), Stream, Resume 0, Resume 0] init))) ! 0)) = [1, 1]"
proof -
  let ?t = "[Start 0.5, Capture 0 (Frame 7), Stream, Resume 0, Resume 0, Resume 0] :: nat event list"
  let ?s = "run test_lib (Some test_model)
     [Start 0.5, Capture 0 (Frame 7), Stream, Resume 0, Resume 0] init"
  have len: "0 < length (sessions (run test_lib (Some test_model) ?t init))" by code_simp
  have h: "0 < length (sessions ?s) \<and> session_pc (sessions ?s ! 0) = AtWhile \<and> camera_active ?s \<and>
    camera_lock ?s = None \<and> current_frame ?s = Some 8 \<and> imencode_jpg test_lib 8 = Inr ''8''"
    by code_simp
  have e: "map fst (emitted (sessions ?s ! 0)) = [1]" "generation ?s = 1" by code_simp+
  note inst = generate_frames_emissions [of test_lib "Some test_model" ?t 0 ?s 8 "''8''"]
  from inst nth_mem [OF len] have a: "sorted (map fst (emitted (sessions (run test_lib (Some test_model) ?t init) ! 0)))"
    by blast
  from inst h have "generate_frames_run test_lib 0 ?s =
        Some (?s\<lparr>camera_lock := Some 0,
                sessions := (sessions ?s)[0 := (sessions ?s ! 0)\<lparr>session_pc := AtYield,
                   emitted := emitted (sessions ?s ! 0) @ [(generation ?s, mjpeg_chunk ''8'')]\<rparr>]\<rparr>)"
    by blast
  then have b: "map fst (emitted (sessions (the (generate_frames_run test_lib 0 ?s)) ! 0)) = [1, 1]"
    using h e by (simp del: run.simps)
  from a b show ?thesis by blast
qed

text \<open>
  C5, as stated, fails: after an error in the loop the slot still holds the last frame.
\<close>

theorem capture_error_keeps_frame:
  "current_frame (run test_lib (Some test_model)
      [Start 0.5, Capture 0 (Frame 7), Capture 0 (ReadError ''boom'')] init) = Some 8 \<and>
   \<not> camera_active (run test_lib (Some test_model)
      [Start 0.5, Capture 0 (Frame 7), Capture 0 (ReadError ''boom'')] init)"
  by code_simp

text \<open>
  C5, amended. When the read, the resize, the detector or a plot raises in a turn of a
  running capture thread, the thread returns, \<open>camera_active\<close> becomes false and the error
  is printed; the slot, the lock and every session are left as they are, so nothing reaches
  the viewers.
\<close>

theorem capture_error_stops_pipeline:
  assumes i: "i < length (tasks s)" and pc: "task_pc (tasks s ! i) \<noteq> Returned"
    and act: "camera_active s"
    and err: "rd = ReadError e \<or>
       (\<exists>frame x. rd = Frame frame \<and>
          annotate_frame L model (task_conf (tasks s ! i)) frame = Inl x \<and> e = str_exn L x)"
  shows "\<exists>s'. webcam_stream_task_turn L model i rd s = Some s' \<and>
     \<not> camera_active s' \<and> task_pc (tasks s' ! i) = Returned \<and>
     printed s' = printed s @ [WebcamError e] \<and>
     current_frame s' = current_frame s \<and> generation s' = generation s \<and>
     sessions s' = sessions s \<and> camera_lock s' = camera_lock s"
proof -
  let ?t = "(tasks s ! i)\<lparr>cap := Opened, task_pc := Looping\<rparr>"
  have "webcam_stream_task_turn L model i rd s = Some (task_except i ?t e s)"
    using i pc act err
    by (auto simp: webcam_stream_task_turn_def Let_def)
  then show ?thesis using i by (simp add: task_except_def)
qed

theorem capture_error_stops_pipeline_witness:
  "\<exists>s'. webcam_stream_task_turn test_lib (Some test_model) 0 (ReadError ''boom'')
       (run test_lib (Some test_model) [Start 0.5, Capture 0 (Frame 7), Stream] init) = Some s' \<and>
     \<not> camera_active s' \<and> printed s' = [WebcamError ''boom''] \<and> current_frame s' = Some 8 \<and>
     sessions s' = [\<lparr>session_pc = AtWhile, emitted = []\<rparr>]"
proof -
  let ?s = "run test_lib (Some test_model) [Start 0.5, Capture 0 (Frame 7), Stream] init"
  have i: "0 < length (tasks ?s)" by code_simp
  have pc: "task_pc (tasks ?s ! 0) \<noteq> Returned" by code_simp
  have act: "camera_active ?s" by code_simp
  have err: "ReadError ''boom'' = ReadError ''boom'' \<or>
       (\<exists>frame x. (ReadError ''boom'' :: nat cam_read) = Frame frame \<and>
          annotate_frame test_lib (Some test_model) (task_conf (tasks ?s ! 0)) frame = Inl x \<and>
          ''boom'' = str_exn test_lib x)" by simp
  have p: "printed ?s = []" by code_simp
  have f: "current_frame ?s = Some 8" by code_simp
  have ss: "sessions ?s = [\<lparr>session_pc = AtWhile, emitted = []\<rparr>]" by code_simp
  from capture_error_stops_pipeline [OF i pc act err] show ?thesis
    unfolding p f ss by (auto simp del: run.simps)
qed

text \<open>
  C6, as stated, fails: with the pipeline active and a frame in the slot, a session
  suspended at its \<open>yield\<close> holds the lock, and \<open>webcam_frame\<close> waits at
  \<open>with camera_lock\<close> instead of returning the frame.
\<close>

theorem webcam_frame_waits_for_lock:
  "camera_active (run test_lib (Some test_model)
      [Start 0.5, Capture 0 (Frame 7), Stream, Resume 0] init) \<and>
   current_frame (run test_lib (Some test_model)
      [Start 0.5, Capture 0 (Frame 7), Stream, Resume 0] init) = Some 8 \<and>
   imencode_jpg test_lib 8 = Inr ''8'' \<and>
   webcam_frame test_lib 3 (run test_lib (Some test_model)
      [Start 0.5, Capture 0 (Frame 7), Stream, Resume 0] init) = None"
  by code_simp

text \<open>
  C6, amended. \<open>webcam_frame\<close> answers "Webcam not active" (400) whenever
  \<open>camera_active\<close> is false. With \<open>camera_active\<close> true and the lock free, it answers
  "No frame available" (404) when the slot is empty; when the slot holds a frame, it
  returns success with the base64 of the frame's JPEG encoding and the event loop's clock
  at the call, or lets the encoder's exception through. With \<open>camera_active\<close> true and
  the lock held by a session, it waits for the lock.
\<close>

theorem webcam_frame_cases:
  "(\<not> camera_active s \<longrightarrow>
      webcam_frame L now s = Some (Inl (HTTPException 400 ''Webcam not active''))) \<and>
   (camera_active s \<and> camera_lock s = None \<and> current_frame s = None \<longrightarrow>
      webcam_frame L now s = Some (Inl (HTTPException 404 ''No frame available''))) \<and>
   (camera_active s \<and> camera_lock s = None \<and> current_frame s = Some frame \<and>
    imencode_jpg L frame = Inr buffer \<longrightarrow>
      webcam_frame L now s =
        Some (Inr \<lparr>frame_success = True, frame_image = b64encode L buffer,
                   frame_timestamp = now\<rparr>)) \<and>
   (camera_active s \<and> camera_lock s = None \<and> current_frame s = Some frame \<and>
    imencode_jpg L frame = Inl e \<longrightarrow>
      webcam_frame L now s = Some (Inl e)) \<and>
   (camera_active s \<and> camera_lock s \<noteq> None \<longrightarrow> webcam_frame L now s = None)"
  by (simp add: webcam_frame_def try_bind_def)

theorem webcam_frame_cases_witness:
  "webcam_frame test_lib 3 (init :: nat webcam) =
     Some (Inl (HTTPException 400 ''Webcam not active'')) \<and>
   webcam_frame test_lib 3 (run test_lib (Some test_model) [Start 0.5] init) =
     Some (Inl (HTTPException 404 ''No frame available'')) \<and>
   webcam_frame test_lib 3 (run test_lib (Some test_model) [Start 0.5, Capture 0 (Frame 7)] init) =
     Some (Inr \<lparr>frame_success = True, frame_image = ''8'', frame_timestamp = 3\<rparr>) \<and>
   webcam_frame test_lib 3 ((init :: nat webcam)\<lparr>camera_active := True, current_frame := Some 0\<rparr>) =
     Some (Inl (PyError ''empty image'')) \<and>
   webcam_frame test_lib 3 (run test_lib (Some test_model)
      [Start 0.5, Capture 0 (Frame 7), Stream, Resume 0] init) = None"
proof -
  let ?s1 = "run test_lib (Some test_model) [Start 0.5] init"
  let ?s2 = "run test_lib (Some test_model) [Start 0.5, Capture 0 (Frame 7)] init"
  let ?s3 = "(init :: nat webcam)\<lparr>camera_active := True, current_frame := Some 0\<rparr>"
  let ?s4 = "run test_lib (Some test_model) [Start 0.5, Capture 0 (Frame 7), Stream, Resume 0] init"
  have a: "\<not> camera_active (init :: nat webcam)" by code_simp
  have b: "camera_active ?s1 \<and> camera_lock ?s1 = None \<and> current_frame ?s1 = None" by code_simp
  have c: "camera_active ?s2 \<and> camera_lock ?s2 = None \<and> current_frame ?s2 = Some 8 \<and>
    imencode_jpg test_lib 8 = Inr ''8''" by code_simp
  have d: "b64encode test_lib ''8'' = ''8''" by code_simp
  have e: "camera_active ?s3 \<and> camera_lock ?s3 = None \<and> current_frame ?s3 = Some 0 \<and>
    imencode_jpg test_lib 0 = Inl (PyError ''empty image'')" by code_simp
  have f: "camera_active ?s4 \<and> camera_lock ?s4 \<noteq> None" by code_simp
  from webcam_frame_cases [of "init :: nat webcam" test_lib 3 8 "''8''"] a
  have c1: "webcam_frame test_lib 3 (init :: nat webcam) =
     Some (Inl (HTTPException 400 ''Webcam not active''))" by blast
  from webcam_frame_cases [of ?s1 test_lib 3 8 "''8''"] b
  have c2: "webcam_frame test_lib 3 ?s1 = Some (Inl (HTTPException 404 ''No frame available''))"
    by blast
  from webcam_frame_cases [of ?s2 test_lib 3 8 "''8''"] c
  have "webcam_frame test_lib 3 ?s2 =
     Some (Inr \<lparr>frame_success = True, frame_image = b64encode test_lib ''8'',
                frame_timestamp = 3\<rparr>)" by blast
  then have c3: "webcam_frame test_lib 3 ?s2 =
     Some (Inr \<lparr>frame_success = True, frame_image = ''8'', frame_timestamp = 3\<rparr>)"
    unfolding d .
  from webcam_frame_cases [where s = ?s3 and L = test_lib and now = 3 and frame = 0
      and e = "PyError ''empty image''"] e
  have c4: "webcam_frame test_lib 3 ?s3 = Some (Inl (PyError ''empty image''))" by blast
  from webcam_frame_cases [where s = ?s4 and L = test_lib and now = 3] f
  have c5: "webcam_frame test_lib 3 ?s4 = None" by blast
  from c1 c2 c3 c4 c5 show ?thesis by blast
qed

text \<open>
  C7, as stated, fails: after its first emission session 0 is suspended at its \<open>yield\<close>
  holding the lock; the capture thread's next publication and session 1's read both wait.
\<close>

theorem session_holds_lock_at_yield:
  "camera_lock (run test_lib (Some test_model)
      [Start 0.5, Capture 0 (Frame 7), Stream, Stream, Resume 0] init) = Some 0 \<and>
   session_pc (sessions (run test_lib (Some test_model)
      [Start 0.5, Capture 0 (Frame 7), Stream, Stream, Resume 0] init) ! 0) = AtYield \<and>
   webcam_stream_task_turn test_lib (Some test_model) 0 (Frame 9) (run test_lib (Some test_model)
      [Start 0.5, Capture 0 (Frame 7), Stream, Stream, Resume 0] init) = None \<and>
   generate_frames_run test_lib 1 (run test_lib (Some test_model)
      [Start 0.5, Capture 0 (Frame 7), Stream, Stream, Resume 0] init) = None"
  by code_simp

text \<open>
  C7, amended. An emitting run of a session takes the lock, encodes and yields with the
  lock still held. While a session holds the lock and the pipeline is active, a capture
  turn that reaches its publication, any session at the head of its loop and
  \<open>webcam_frame\<close> all wait. The lock is released when the session is resumed from the
  yield, before its sleep; a run that finds the slot empty leaves the lock free.
\<close>

theorem generate_frames_lock:
  "(j < length (sessions s) \<and> session_pc (sessions s ! j) = AtWhile \<and> camera_active s \<and>
    camera_lock s = None \<and> current_frame s = Some frame \<and> imencode_jpg L frame = Inr buffer \<longrightarrow>
      (\<exists>s'. generate_frames_run L j s = Some s' \<and> camera_lock s' = Some j \<and>
            session_pc (sessions s' ! j) = AtYield)) \<and>
   (camera_lock s = Some j \<and> camera_active s \<longrightarrow>
      (i < length (tasks s) \<and> task_pc (tasks s ! i) \<noteq> Returned \<and>
       annotate_frame L model (task_conf (tasks s ! i)) raw = Inr frame' \<longrightarrow>
          webcam_stream_task_turn L model i (Frame raw) s = None) \<and>
      (k < length (sessions s) \<and> session_pc (sessions s ! k) = AtWhile \<longrightarrow>
          generate_frames_run L k s = None) \<and>
      webcam_frame L now s = None) \<and>
   (j < length (sessions s) \<and> session_pc (sessions s ! j) = AtYield \<longrightarrow>
      (\<exists>s'. generate_frames_run L j s = Some s' \<and> camera_lock s' = None \<and>
            session_pc (sessions s' ! j) = AtWhile \<and>
            emitted (sessions s' ! j) = emitted (sessions s ! j))) \<and>
   (j < length (sessions s) \<and> session_pc (sessions s ! j) = AtWhile \<and> camera_active s \<and>
    camera_lock s = None \<and> current_frame s = None \<longrightarrow>
      generate_frames_run L j s = Some s)"
  by (auto simp: generate_frames_run_def webcam_stream_task_turn_def webcam_frame_def Let_def)

theorem generate_frames_lock_witness:
  "(\<exists>s'. generate_frames_run test_lib 0 (run test_lib (Some test_model)
        [Start 0.5, Capture 0 (Frame 7), Stream, Stream] init) = Some s' \<and>
      camera_lock s' = Some 0 \<and> session_pc (sessions s' ! 0) = AtYield) \<and>
   webcam_stream_task_turn test_lib (Some test_model) 0 (Frame 9) (run test_lib (Some test_model)
      [Start 0.5, Capture 0 (Frame 7), Stream, Stream, Resume 0] init) = None \<and>
   generate_frames_run test_lib 1 (run test_lib (Some test_model)
      [Start 0.5, Capture 0 (Frame 7), Stream, Stream, Resume 0] init) = None \<and>
   webcam_frame test_lib 3 (run test_lib (Some test_model)
      [Start 0.5, Capture 0 (Frame 7), Stream, Stream, Resume 0] init) = None \<and>
   (\<exists>s'. generate_frames_run test_lib 0 (run test_lib (Some test_model)
        [Start 0.5, Capture 0 (Frame 7), Stream, Stream, Resume 0] init) = Some s' \<and>
      camera_lock s' = None \<and> session_pc (sessions s' ! 0) = AtWhile) \<and>
   generate_frames_run test_lib 0 (run test_lib (Some test_model) [Start 0.5, Stream] init) =
     Some (run test_lib (Some test_model) [Start 0.5, Stream] init)"
proof -
  let ?s1 = "run test_lib (Some test_model) [Start 0.5, Capture 0 (Frame 7), Stream, Stream] init"
  let ?s2 = "run test_lib (Some test_model)
      [Start 0.5, Capture 0 (Frame 7), Stream, Stream, Resume 0] init"
  let ?s4 = "run test_lib (Some test_model) [Start 0.5, Stream] init"
  have h1: "0 < length (sessions ?s1) \<and> session_pc (sessions ?s1 ! 0) = AtWhile \<and>
    camera_active ?s1 \<and> camera_lock ?s1 = None \<and> current_frame ?s1 = Some 8 \<and>
    imencode_jpg test_lib 8 = Inr ''8''" by code_simp
  have h2: "camera_lock ?s2 = Some 0 \<and> camera_active ?s2 \<and>
    0 < length (tasks ?s2) \<and> task_pc (tasks ?s2 ! 0) \<noteq> Returned \<and>
    annotate_frame test_lib (Some test_model) (task_conf (tasks ?s2 ! 0)) 9 = Inr 10 \<and>
    1 < length (sessions ?s2) \<and> session_pc (sessions ?s2 ! 1) = AtWhile" by code_simp
  have h3: "0 < length (sessions ?s2) \<and> session_pc (sessions ?s2 ! 0) = AtYield" by code_simp
  have h4: "0 < length (sessions ?s4) \<and> session_pc (sessions ?s4 ! 0) = AtWhile \<and>
    camera_active ?s4 \<and> camera_lock ?s4 = None \<and> current_frame ?s4 = None" by code_simp
  from generate_frames_lock [where s = ?s1 and j = 0 and L = test_lib and frame = 8
      and buffer = "''8''"] h1
  have c1: "\<exists>s'. generate_frames_run test_lib 0 ?s1 = Some s' \<and>
      camera_lock s' = Some 0 \<and> session_pc (sessions s' ! 0) = AtYield" by blast
  from generate_frames_lock [where s = ?s2 and j = 0 and L = test_lib and i = 0 and raw = 9
      and frame' = 10 and model = "Some test_model" and k = 1 and now = 3] h2 h3
  have c2: "webcam_stream_task_turn test_lib (Some test_model) 0 (Frame 9) ?s2 = None \<and>
    generate_frames_run test_lib 1 ?s2 = None \<and> webcam_frame test_lib 3 ?s2 = None \<and>
    (\<exists>s'. generate_frames_run test_lib 0 ?s2 = Some s' \<and>
      camera_lock s' = None \<and> session_pc (sessions s' ! 0) = AtWhile)" by blast
  from generate_frames_lock [where s = ?s4 and j = 0 and L = test_lib] h4
  have c4: "generate_frames_run test_lib 0 ?s4 = Some ?s4" by blast
  from c1 c2 c4 show ?thesis by blast
qed

end
